theory Spec2Isabelle
  imports Main
begin

section \<open>Data model\<close>

text \<open>
  The types \<^verbatim>\<open>SttApiProvider\<close> and \<^verbatim>\<open>SttApiSettings\<close> come from the generated bindings;
  their fields are the ones the two components read and write (\<^verbatim>\<open>id\<close>, \<^verbatim>\<open>label\<close>,
  \<^verbatim>\<open>base_url\<close>, \<^verbatim>\<open>allow_base_url_edit\<close>; \<^verbatim>\<open>enabled\<close>, \<^verbatim>\<open>provider_id\<close>, \<^verbatim>\<open>providers\<close>,
  \<^verbatim>\<open>api_keys\<close>, \<^verbatim>\<open>models\<close>). The field \<^verbatim>\<open>id\<close> is written \<open>id'\<close> here.
\<close>

record SttApiProvider =
  id' :: string
  label :: string
  base_url :: string
  allow_base_url_edit :: bool

text \<open>
  The value stored under the key \<^verbatim>\<open>"stt_api"\<close> is a JavaScript object. The spread
  \<^verbatim>\<open>{...sttApiSettings, enabled}\<close> of \<^verbatim>\<open>handleToggleEnabled\<close> is evaluated also when
  \<^verbatim>\<open>sttApiSettings\<close> is \<^verbatim>\<open>undefined\<close>, and then builds an object that has only some of
  the declared properties. Every property is therefore optional in the model: \<open>None\<close> is
  an absent property, and an object of the declared type has all five. The two records
  of strings by provider id, \<^verbatim>\<open>api_keys\<close> and \<^verbatim>\<open>models\<close>, are maps: a key has the value
  that was stored for it or none. What a read of a key yields that was not stored is
  decided by the prototype of the object, see \<open>inherited\<close> below.
\<close>

record SttApiSettings =
  enabled :: "bool option"
  provider_id :: "string option"
  providers :: "SttApiProvider list option"
  api_keys :: "(string \<rightharpoonup> string) option"
  models :: "(string \<rightharpoonup> string) option"

text \<open>The remote procedures of \<^verbatim>\<open>commands\<close>, with their arguments.\<close>

datatype command =
    setSttApiEnabled bool
  | setSttApiProvider string
  | setSttApiBaseUrl string string
  | setSttApiKey string string
  | setSttApiModel string string

text \<open>
  The awaited promise of a remote procedure either resolves or rejects. The bindings are
  not part of the sources, so the outcome is a parameter of every handler.
\<close>

datatype outcome = Resolved | Rejected

text \<open>What a handler does to the outside: a remote call, a line on the console.\<close>

datatype event = Invoke command | ConsoleError string

text \<open>
  Reading a property of \<^verbatim>\<open>undefined\<close>, and calling most methods of \<^verbatim>\<open>Object.prototype\<close>
  without a receiver, throws a \<^verbatim>\<open>TypeError\<close>.
\<close>

datatype error = TypeError

text \<open>
  The values that the reads \<^verbatim>\<open>api_keys[k]\<close> and \<^verbatim>\<open>models[k]\<close> can yield, and that the
  cells \<^verbatim>\<open>apiKey\<close> and \<^verbatim>\<open>model\<close> can therefore hold. A key that was stored yields its
  string. A key that was not stored is looked up in \<^verbatim>\<open>Object.prototype\<close>, the prototype
  of the objects that hold the keys and the models: eleven of its properties are
  functions, the property \<^verbatim>\<open>__proto__\<close> reads as \<^verbatim>\<open>Object.prototype\<close> itself. The
  functions can return a string, a boolean, or the object that wraps a primitive value.
\<close>

datatype builtin =
    Constructor | DefineGetter | DefineSetter | HasOwnProperty | LookupGetter
  | LookupSetter | IsPrototypeOf | PropertyIsEnumerable | ToString | ValueOf
  | ToLocaleString

datatype js_value =
    Str string
  | Bool bool
  | Function builtin
  | ObjectPrototype
  | Wrapper js_value

text \<open>
  One record holds everything the handlers read and write: the store's value for
  \<^verbatim>\<open>"stt_api"\<close> (\<open>None\<close> is \<^verbatim>\<open>undefined\<close>), the seven \<^verbatim>\<open>useState\<close> cells of
  \<^verbatim>\<open>useSttApiState\<close>, and the events so far. A state setter takes effect at once: the
  model does not separate the call of a setter from the render that shows its value.
  \<^verbatim>\<open>selectedProviderId\<close> is optional because the effect assigns
  \<^verbatim>\<open>sttApiSettings.provider_id\<close> to it, which may be absent. The field \<open>render_throws\<close>
  is set when a setter was given a function that throws: React runs such a function in
  the render phase, so the handler that called the setter goes on, and the next render
  fails.
\<close>

record world =
  stt_api :: "SttApiSettings option"
  selectedProviderId :: "string option"
  baseUrl :: string
  apiKey :: js_value
  model :: js_value
  isBaseUrlUpdating :: bool
  isApiKeyUpdating :: bool
  isModelUpdating :: bool
  events :: "event list"
  render_throws :: bool

text \<open>The cells as \<^verbatim>\<open>useState\<close> initialises them, over a given store value.\<close>

definition initial :: "SttApiSettings option \<Rightarrow> world" where
  "initial s = \<lparr>stt_api = s, selectedProviderId = Some [], baseUrl = [], apiKey = Str [],
     model = Str [], isBaseUrlUpdating = False, isApiKeyUpdating = False,
     isModelUpdating = False, events = [], render_throws = False\<rparr>"

section \<open>The store and the state setters\<close>

text \<open>
  Modelled from the spec: the hook \<^verbatim>\<open>useSettings\<close> is not among the sources. The spec gives
  the store two synchronous primitives, \<^verbatim>\<open>get(key) -> value|absent\<close> and
  \<^verbatim>\<open>update(key, value) -> void\<close>; only the key \<^verbatim>\<open>"stt_api"\<close> is used. Reading it,
  \<^verbatim>\<open>getSetting("stt_api")\<close>, is the field \<open>stt_api\<close> of the state; writing it is
  \<open>updateSetting\<close>.
\<close>

definition updateSetting :: "SttApiSettings \<Rightarrow> world \<Rightarrow> world" where
  "updateSetting v w = w\<lparr>stt_api := Some v\<rparr>"

definition setSelectedProviderId :: "string option \<Rightarrow> world \<Rightarrow> world" where
  "setSelectedProviderId v w = w\<lparr>selectedProviderId := v\<rparr>"

definition setBaseUrl :: "string \<Rightarrow> world \<Rightarrow> world" where
  "setBaseUrl v w = w\<lparr>baseUrl := v\<rparr>"

text \<open>
  The setters of \<^verbatim>\<open>apiKey\<close> and \<^verbatim>\<open>model\<close> are called with strings and with the values of
  property reads. React's reducer for \<^verbatim>\<open>useState\<close> stores a value that is not a function
  and calls a function on the value of the cell, as an updater, without a receiver. What
  the functions of \<^verbatim>\<open>Object.prototype\<close> do then: \<^verbatim>\<open>toString\<close> returns
  \<^verbatim>\<open>"[object Undefined]"\<close>; \<^verbatim>\<open>Object\<close>, the value of \<^verbatim>\<open>constructor\<close>, returns its argument
  as an object; \<^verbatim>\<open>isPrototypeOf\<close> returns \<^verbatim>\<open>false\<close> for an argument that is not an object
  and converts its receiver otherwise; the others convert their receiver first. The
  conversion of \<^verbatim>\<open>undefined\<close> to an object throws.
\<close>

fun is_object :: "js_value \<Rightarrow> bool" where
  "is_object (Str s) = False"
| "is_object (Bool b) = False"
| "is_object (Function f) = True"
| "is_object ObjectPrototype = True"
| "is_object (Wrapper v) = True"

definition to_object :: "js_value \<Rightarrow> js_value" where
  "to_object v = (if is_object v then v else Wrapper v)"

fun call_without_receiver :: "builtin \<Rightarrow> js_value \<Rightarrow> error + js_value" where
  "call_without_receiver ToString v = Inr (Str ''[object Undefined]'')"
| "call_without_receiver Constructor v = Inr (to_object v)"
| "call_without_receiver IsPrototypeOf v = (if is_object v then Inl TypeError else Inr (Bool False))"
| "call_without_receiver DefineGetter v = Inl TypeError"
| "call_without_receiver DefineSetter v = Inl TypeError"
| "call_without_receiver HasOwnProperty v = Inl TypeError"
| "call_without_receiver LookupGetter v = Inl TypeError"
| "call_without_receiver LookupSetter v = Inl TypeError"
| "call_without_receiver PropertyIsEnumerable v = Inl TypeError"
| "call_without_receiver ValueOf v = Inl TypeError"
| "call_without_receiver ToLocaleString v = Inl TypeError"

definition basicStateReducer :: "js_value \<Rightarrow> js_value \<Rightarrow> error + js_value" where
  "basicStateReducer state action =
     (case action of Function f \<Rightarrow> call_without_receiver f state | _ \<Rightarrow> Inr action)"

definition setApiKey :: "js_value \<Rightarrow> world \<Rightarrow> world" where
  "setApiKey action w =
     (case basicStateReducer (apiKey w) action of
        Inl e \<Rightarrow> w\<lparr>render_throws := True\<rparr>
      | Inr v \<Rightarrow> w\<lparr>apiKey := v\<rparr>)"

definition setModel :: "js_value \<Rightarrow> world \<Rightarrow> world" where
  "setModel action w =
     (case basicStateReducer (model w) action of
        Inl e \<Rightarrow> w\<lparr>render_throws := True\<rparr>
      | Inr v \<Rightarrow> w\<lparr>model := v\<rparr>)"

definition setIsBaseUrlUpdating :: "bool \<Rightarrow> world \<Rightarrow> world" where
  "setIsBaseUrlUpdating v w = w\<lparr>isBaseUrlUpdating := v\<rparr>"

definition setIsApiKeyUpdating :: "bool \<Rightarrow> world \<Rightarrow> world" where
  "setIsApiKeyUpdating v w = w\<lparr>isApiKeyUpdating := v\<rparr>"

definition setIsModelUpdating :: "bool \<Rightarrow> world \<Rightarrow> world" where
  "setIsModelUpdating v w = w\<lparr>isModelUpdating := v\<rparr>"

definition invoke :: "command \<Rightarrow> world \<Rightarrow> world" where
  "invoke c w = w\<lparr>events := events w @ [Invoke c]\<rparr>"

definition console_error :: "string \<Rightarrow> world \<Rightarrow> world" where
  "console_error msg w = w\<lparr>events := events w @ [ConsoleError msg]\<rparr>"

section \<open>Values derived at render\<close>

text \<open>\<^verbatim>\<open>!x\<close> for a string that may be \<^verbatim>\<open>undefined\<close>: both \<^verbatim>\<open>undefined\<close> and \<^verbatim>\<open>""\<close> are falsy.\<close>

definition falsy :: "string option \<Rightarrow> bool" where
  "falsy x = (case x of None \<Rightarrow> True | Some k \<Rightarrow> k = [])"

text \<open>
  A string that may be \<^verbatim>\<open>undefined\<close>, used where a string is needed. As a computed
  property key, \<^verbatim>\<open>undefined\<close> is converted to the string \<^verbatim>\<open>"undefined"\<close>; as the
  argument of a remote call it does not occur, because the guards exclude it.
\<close>

definition property_key :: "string option \<Rightarrow> string" where
  "property_key x = (case x of None \<Rightarrow> ''undefined'' | Some k \<Rightarrow> k)"

text \<open>\<^verbatim>\<open>sttApiSettings?.providers ?? []\<close>\<close>

definition providers_of :: "SttApiSettings option \<Rightarrow> SttApiProvider list" where
  "providers_of s =
     (case s of None \<Rightarrow> []
      | Some x \<Rightarrow> (case providers x of None \<Rightarrow> [] | Some ps \<Rightarrow> ps))"

text \<open>\<^verbatim>\<open>providers.find((p) => p.id === selectedProviderId)\<close>\<close>

definition selectedProvider :: "world \<Rightarrow> SttApiProvider option" where
  "selectedProvider w =
     find (\<lambda>p. Some (id' p) = selectedProviderId w) (providers_of (stt_api w))"

text \<open>\<^verbatim>\<open>selectedProvider?.id === "custom"\<close>\<close>

definition isCustomProvider :: "world \<Rightarrow> bool" where
  "isCustomProvider w =
     (case selectedProvider w of None \<Rightarrow> False | Some p \<Rightarrow> id' p = ''custom'')"

definition providerOptions :: "world \<Rightarrow> (string \<times> string) list" where
  "providerOptions w = map (\<lambda>p. (id' p, label p)) (providers_of (stt_api w))"

text \<open>
  The dependency of the effect, \<^verbatim>\<open>sttApiSettings?.provider_id\<close>: the effect runs on mount
  and after a render in which this value differs from the one of the render before.
\<close>

definition dep :: "SttApiSettings option \<Rightarrow> string option" where
  "dep s = (case s of None \<Rightarrow> None | Some x \<Rightarrow> provider_id x)"

section \<open>The effect that initialises the form\<close>

text \<open>The properties that every plain object inherits from \<^verbatim>\<open>Object.prototype\<close>.\<close>

definition inherited :: "string \<rightharpoonup> js_value" where
  "inherited = map_of
     [(''constructor'', Function Constructor),
      (''__defineGetter__'', Function DefineGetter),
      (''__defineSetter__'', Function DefineSetter),
      (''hasOwnProperty'', Function HasOwnProperty),
      (''__lookupGetter__'', Function LookupGetter),
      (''__lookupSetter__'', Function LookupSetter),
      (''isPrototypeOf'', Function IsPrototypeOf),
      (''propertyIsEnumerable'', Function PropertyIsEnumerable),
      (''toString'', Function ToString),
      (''valueOf'', Function ValueOf),
      (''toLocaleString'', Function ToLocaleString),
      (''__proto__'', ObjectPrototype)]"

text \<open>
  \<^verbatim>\<open>m[k]\<close> for an object \<^verbatim>\<open>m\<close> with the stored keys \<open>f\<close>: the stored string, else the
  inherited property, else \<^verbatim>\<open>undefined\<close>.
\<close>

definition get_property :: "(string \<rightharpoonup> string) \<Rightarrow> string \<Rightarrow> js_value option" where
  "get_property f k = (case f k of Some v \<Rightarrow> Some (Str v) | None \<Rightarrow> inherited k)"

text \<open>
  \<^verbatim>\<open>m[k] ?? d\<close>, where \<^verbatim>\<open>m\<close> itself may be \<^verbatim>\<open>undefined\<close>: the read throws then. The
  declared types exclude it, but the objects that \<^verbatim>\<open>handleToggleEnabled\<close> can store do
  not, so the model keeps the branch. The default \<open>d\<close> replaces \<^verbatim>\<open>undefined\<close> only.
\<close>

definition lookup_or ::
  "(string \<rightharpoonup> string) option \<Rightarrow> string \<Rightarrow> string \<Rightarrow> error + js_value" where
  "lookup_or m k d =
     (case m of None \<Rightarrow> Inl TypeError
      | Some f \<Rightarrow> Inr (case get_property f k of None \<Rightarrow> Str d | Some v \<Rightarrow> v))"

text \<open>
  The body of \<^verbatim>\<open>useEffect\<close> (lines 37 to 56). An exception leaves the effect; the
  component does not catch it, and the result is the error.
\<close>

definition useEffect_init :: "world \<Rightarrow> error + world" where
  "useEffect_init w =
     (case stt_api w of
        None \<Rightarrow> Inr w
      | Some s \<Rightarrow>
          let w1 = setSelectedProviderId (provider_id s) w in
          (case providers s of
             None \<Rightarrow> Inl TypeError
           | Some ps \<Rightarrow>
               let w2 = (case find (\<lambda>p. Some (id' p) = provider_id s) ps of
                           None \<Rightarrow> w1
                         | Some currentProvider \<Rightarrow> setBaseUrl (base_url currentProvider) w1)
               in
               (case lookup_or (api_keys s) (property_key (provider_id s)) [] of
                  Inl e \<Rightarrow> Inl e
                | Inr currentApiKey \<Rightarrow>
                    let w3 = setApiKey currentApiKey w2 in
                    (case lookup_or (models s) (property_key (provider_id s)) ''whisper-1'' of
                       Inl e \<Rightarrow> Inl e
                     | Inr currentModel \<Rightarrow> Inr (setModel currentModel w3)))))"

text \<open>The render that follows an effect: it fails when a setter was given a function that throws.\<close>

definition then_render :: "error + world \<Rightarrow> error + world" where
  "then_render r =
     (case r of Inl e \<Rightarrow> Inl e
      | Inr w \<Rightarrow> if render_throws w then Inl TypeError else Inr w)"

text \<open>The first render over a store value: the cells are initial and the effect runs.\<close>

definition mount :: "SttApiSettings option \<Rightarrow> error + world" where
  "mount s = then_render (useEffect_init (initial s))"

text \<open>
  A later render: \<open>w0\<close> is the state at the render before. The effect runs again only
  when its dependency has changed.
\<close>

definition rerender :: "world \<Rightarrow> world \<Rightarrow> error + world" where
  "rerender w0 w =
     (if render_throws w then Inl TypeError
      else if dep (stt_api w) = dep (stt_api w0) then Inr w
      else then_render (useEffect_init w))"

section \<open>The handlers\<close>

text \<open>
  Every handler is an \<^verbatim>\<open>async\<close> function with one \<^verbatim>\<open>await\<close>. It is modelled in two
  parts. The part \<open>_start\<close> runs from the invocation to the \<^verbatim>\<open>await\<close>: it is \<open>None\<close>
  when the guard returns early, and otherwise the state in which the remote call has
  been issued and is pending. The part \<open>_settle\<close> runs from the outcome of the call to
  the end of the handler. It takes two states: \<open>w0\<close>, the render whose values the
  callback closed over (\<^verbatim>\<open>sttApiSettings\<close>, \<^verbatim>\<open>providers\<close>, \<^verbatim>\<open>selectedProviderId\<close>), and
  \<open>w\<close>, the state at the time the promise settles, which the setters and the store
  update act on. The handler named as in the source is the run in which nothing else
  happens in between.
\<close>

text \<open>\<^verbatim>\<open>{...x}\<close> for an object that may be \<^verbatim>\<open>undefined\<close>: no property is copied then.\<close>

definition spread :: "SttApiSettings option \<Rightarrow> SttApiSettings" where
  "spread x =
     (case x of
        None \<Rightarrow> \<lparr>enabled = None, provider_id = None, providers = None,
                  api_keys = None, models = None\<rparr>
      | Some s \<Rightarrow> s)"

definition spread_map :: "(string \<rightharpoonup> string) option \<Rightarrow> (string \<rightharpoonup> string)" where
  "spread_map x = (case x of None \<Rightarrow> Map.empty | Some f \<Rightarrow> f)"

subsection \<open>handleProviderSelect\<close>

definition handleProviderSelect_start :: "string \<Rightarrow> world \<Rightarrow> world option" where
  "handleProviderSelect_start providerId w =
     (if providerId = [] \<or> stt_api w = None then None
      else Some (invoke (setSttApiProvider providerId) w))"

text \<open>
  \<^verbatim>\<open>sttApiSettings?.api_keys[providerId] ?? ""\<close>: the optional chain yields
  \<^verbatim>\<open>undefined\<close> for an undefined object and throws for an object without the property.
\<close>

definition chain_lookup_or ::
  "SttApiSettings option \<Rightarrow> (SttApiSettings \<Rightarrow> (string \<rightharpoonup> string) option) \<Rightarrow> string \<Rightarrow> string
     \<Rightarrow> error + js_value" where
  "chain_lookup_or x field k d =
     (case x of None \<Rightarrow> Inr (Str d) | Some s \<Rightarrow> lookup_or (field s) k d)"

definition handleProviderSelect_settle :: "world \<Rightarrow> string \<Rightarrow> outcome \<Rightarrow> world \<Rightarrow> world" where
  "handleProviderSelect_settle w0 providerId out w =
     (case out of
        Rejected \<Rightarrow> console_error ''Failed to set STT API provider:'' w
      | Resolved \<Rightarrow>
          let w1 = updateSetting ((spread (stt_api w0))\<lparr>provider_id := Some providerId\<rparr>) w;
              w2 = setSelectedProviderId (Some providerId) w1
          in
          (case find (\<lambda>p. id' p = providerId) (providers_of (stt_api w0)) of
             None \<Rightarrow> w2
           | Some provider \<Rightarrow>
               let w3 = setBaseUrl (base_url provider) w2 in
               (case chain_lookup_or (stt_api w0) api_keys providerId [] of
                  Inl e \<Rightarrow> console_error ''Failed to set STT API provider:'' w3
                | Inr providerApiKey \<Rightarrow>
                    let w4 = setApiKey providerApiKey w3 in
                    (case chain_lookup_or (stt_api w0) models providerId ''whisper-1'' of
                       Inl e \<Rightarrow> console_error ''Failed to set STT API provider:'' w4
                     | Inr providerModel \<Rightarrow> setModel providerModel w4))))"

definition handleProviderSelect :: "string \<Rightarrow> outcome \<Rightarrow> world \<Rightarrow> world" where
  "handleProviderSelect providerId out w =
     (case handleProviderSelect_start providerId w of
        None \<Rightarrow> w
      | Some w1 \<Rightarrow> handleProviderSelect_settle w providerId out w1)"

subsection \<open>handleBaseUrlChange\<close>

definition handleBaseUrlChange_start :: "string \<Rightarrow> world \<Rightarrow> world option" where
  "handleBaseUrlChange_start newBaseUrl w =
     (if \<not> isCustomProvider w \<or> falsy (selectedProviderId w) then None
      else Some (invoke (setSttApiBaseUrl (property_key (selectedProviderId w)) newBaseUrl)
                  (setBaseUrl newBaseUrl (setIsBaseUrlUpdating True w))))"

definition handleBaseUrlChange_settle :: "world \<Rightarrow> string \<Rightarrow> outcome \<Rightarrow> world \<Rightarrow> world" where
  "handleBaseUrlChange_settle w0 newBaseUrl out w =
     setIsBaseUrlUpdating False
       (case out of
          Rejected \<Rightarrow> console_error ''Failed to update base URL:'' w
        | Resolved \<Rightarrow>
            (case stt_api w0 of
               None \<Rightarrow> w
             | Some s \<Rightarrow>
                 (case providers s of
                    None \<Rightarrow> console_error ''Failed to update base URL:'' w
                  | Some ps \<Rightarrow>
                      let updatedProviders =
                            map (\<lambda>p. if Some (id' p) = selectedProviderId w0
                                      then p\<lparr>base_url := newBaseUrl\<rparr> else p) ps
                      in updateSetting (s\<lparr>providers := Some updatedProviders\<rparr>) w)))"

definition handleBaseUrlChange :: "string \<Rightarrow> outcome \<Rightarrow> world \<Rightarrow> world" where
  "handleBaseUrlChange newBaseUrl out w =
     (case handleBaseUrlChange_start newBaseUrl w of
        None \<Rightarrow> w
      | Some w1 \<Rightarrow> handleBaseUrlChange_settle w newBaseUrl out w1)"

subsection \<open>handleApiKeyChange\<close>

definition handleApiKeyChange_start :: "string \<Rightarrow> world \<Rightarrow> world option" where
  "handleApiKeyChange_start newApiKey w =
     (if falsy (selectedProviderId w) then None
      else Some (invoke (setSttApiKey (property_key (selectedProviderId w)) newApiKey)
                  (setApiKey (Str newApiKey) (setIsApiKeyUpdating True w))))"

definition handleApiKeyChange_settle :: "world \<Rightarrow> string \<Rightarrow> outcome \<Rightarrow> world \<Rightarrow> world" where
  "handleApiKeyChange_settle w0 newApiKey out w =
     setIsApiKeyUpdating False
       (case out of
          Rejected \<Rightarrow> console_error ''Failed to update API key:'' w
        | Resolved \<Rightarrow>
            (case stt_api w0 of
               None \<Rightarrow> w
             | Some s \<Rightarrow>
                 updateSetting
                   (s\<lparr>api_keys := Some ((spread_map (api_keys s))
                          (property_key (selectedProviderId w0) \<mapsto> newApiKey))\<rparr>) w))"

definition handleApiKeyChange :: "string \<Rightarrow> outcome \<Rightarrow> world \<Rightarrow> world" where
  "handleApiKeyChange newApiKey out w =
     (case handleApiKeyChange_start newApiKey w of
        None \<Rightarrow> w
      | Some w1 \<Rightarrow> handleApiKeyChange_settle w newApiKey out w1)"

subsection \<open>handleModelChange\<close>

definition handleModelChange_start :: "string \<Rightarrow> world \<Rightarrow> world option" where
  "handleModelChange_start newModel w =
     (if falsy (selectedProviderId w) then None
      else Some (invoke (setSttApiModel (property_key (selectedProviderId w)) newModel)
                  (setModel (Str newModel) (setIsModelUpdating True w))))"

definition handleModelChange_settle :: "world \<Rightarrow> string \<Rightarrow> outcome \<Rightarrow> world \<Rightarrow> world" where
  "handleModelChange_settle w0 newModel out w =
     setIsModelUpdating False
       (case out of
          Rejected \<Rightarrow> console_error ''Failed to update model:'' w
        | Resolved \<Rightarrow>
            (case stt_api w0 of
               None \<Rightarrow> w
             | Some s \<Rightarrow>
                 updateSetting
                   (s\<lparr>models := Some ((spread_map (models s))
                          (property_key (selectedProviderId w0) \<mapsto> newModel))\<rparr>) w))"

definition handleModelChange :: "string \<Rightarrow> outcome \<Rightarrow> world \<Rightarrow> world" where
  "handleModelChange newModel out w =
     (case handleModelChange_start newModel w of
        None \<Rightarrow> w
      | Some w1 \<Rightarrow> handleModelChange_settle w newModel out w1)"

subsection \<open>handleToggleEnabled\<close>

text \<open>
  The handler of \<^verbatim>\<open>SttApiSettingsComponent\<close>. It has no guard, so its first part always
  issues the call.
\<close>

definition handleToggleEnabled_start :: "bool \<Rightarrow> world \<Rightarrow> world" where
  "handleToggleEnabled_start en w = invoke (setSttApiEnabled en) w"

definition handleToggleEnabled_settle :: "world \<Rightarrow> bool \<Rightarrow> outcome \<Rightarrow> world \<Rightarrow> world" where
  "handleToggleEnabled_settle w0 en out w =
     (case out of
        Rejected \<Rightarrow> console_error ''Failed to toggle STT API:'' w
      | Resolved \<Rightarrow> updateSetting ((spread (stt_api w0))\<lparr>enabled := Some en\<rparr>) w)"

definition handleToggleEnabled :: "bool \<Rightarrow> outcome \<Rightarrow> world \<Rightarrow> world" where
  "handleToggleEnabled en out w =
     handleToggleEnabled_settle w en out (handleToggleEnabled_start en w)"

section \<open>Sequential histories\<close>

text \<open>
  The states in which no handler is in flight: the state after mount, and the state
  after a handler has run from its invocation to its end and the component has
  rendered again. A state in which the effect has thrown is not among them.
\<close>

inductive settled :: "world \<Rightarrow> bool" where
  mounted: "mount s = Inr w \<Longrightarrow> settled w"
| selected: "settled w \<Longrightarrow> rerender w (handleProviderSelect providerId out w) = Inr w'
     \<Longrightarrow> settled w'"
| base_url_changed: "settled w \<Longrightarrow> rerender w (handleBaseUrlChange v out w) = Inr w'
     \<Longrightarrow> settled w'"
| api_key_changed: "settled w \<Longrightarrow> rerender w (handleApiKeyChange v out w) = Inr w'
     \<Longrightarrow> settled w'"
| model_changed: "settled w \<Longrightarrow> rerender w (handleModelChange v out w) = Inr w'
     \<Longrightarrow> settled w'"
| toggled: "settled w \<Longrightarrow> rerender w (handleToggleEnabled en out w) = Inr w'
     \<Longrightarrow> settled w'"

section \<open>What the claims speak about\<close>

text \<open>The remote calls among the events, in the order of their issue.\<close>

fun remote_calls :: "event list \<Rightarrow> command list" where
  "remote_calls [] = []"
| "remote_calls (Invoke c # es) = c # remote_calls es"
| "remote_calls (ConsoleError msg # es) = remote_calls es"

text \<open>No field is busy.\<close>

definition idle :: "world \<Rightarrow> bool" where
  "idle w = (\<not> isBaseUrlUpdating w \<and> \<not> isApiKeyUpdating w \<and> \<not> isModelUpdating w)"

text \<open>
  The selection of the form is the \<^verbatim>\<open>provider_id\<close> of the snapshot, when the snapshot
  has one.
\<close>

definition in_sync :: "world \<Rightarrow> bool" where
  "in_sync w = (dep (stt_api w) = None \<or> selectedProviderId w = dep (stt_api w))"

text \<open>
  The snapshot is valid when \<^verbatim>\<open>provider_id\<close> is the \<^verbatim>\<open>id\<close> of one of the
  \<^verbatim>\<open>providers\<close>. No snapshot, or one without a \<^verbatim>\<open>provider_id\<close>, is not valid.
\<close>

definition snapshot_valid :: "SttApiSettings option \<Rightarrow> bool" where
  "snapshot_valid x =
     (case dep x of None \<Rightarrow> False | Some k \<Rightarrow> k \<in> set (map id' (providers_of x)))"

text \<open>The cells of the form without the events: what the presentation layer reads.\<close>

definition mirror ::
  "world \<Rightarrow> string option \<times> string \<times> js_value \<times> js_value \<times> bool \<times> bool \<times> bool" where
  "mirror w = (selectedProviderId w, baseUrl w, apiKey w, model w,
               isBaseUrlUpdating w, isApiKeyUpdating w, isModelUpdating w)"

section \<open>Concrete states\<close>

text \<open>
  The two default providers, and the snapshot of the spec's scenario A: OpenAI is
  active, no key and no model is stored.
\<close>

definition openai :: SttApiProvider where
  "openai = \<lparr>id' = ''openai'', label = ''OpenAI'',
              base_url = ''https://api.openai.com/v1'', allow_base_url_edit = False\<rparr>"

definition custom :: SttApiProvider where
  "custom = \<lparr>id' = ''custom'', label = ''Custom'',
              base_url = ''http://localhost:8000/v1'', allow_base_url_edit = True\<rparr>"

definition scenarioA :: SttApiSettings where
  "scenarioA = \<lparr>enabled = Some False, provider_id = Some ''openai'',
                 providers = Some [openai, custom],
                 api_keys = Some Map.empty, models = Some Map.empty\<rparr>"

text \<open>The form over scenario A after mount, and after the custom provider was selected.\<close>

definition worldA :: world where
  "worldA = \<lparr>stt_api = Some scenarioA, selectedProviderId = Some ''openai'',
              baseUrl = ''https://api.openai.com/v1'', apiKey = Str [], model = Str ''whisper-1'',
              isBaseUrlUpdating = False, isApiKeyUpdating = False,
              isModelUpdating = False, events = [], render_throws = False\<rparr>"

definition worldA_custom :: world where
  "worldA_custom = \<lparr>stt_api = Some (scenarioA\<lparr>provider_id := Some ''custom''\<rparr>),
              selectedProviderId = Some ''custom'',
              baseUrl = ''http://localhost:8000/v1'', apiKey = Str [], model = Str ''whisper-1'',
              isBaseUrlUpdating = False, isApiKeyUpdating = False,
              isModelUpdating = False, events = [Invoke (setSttApiProvider ''custom'')],
              render_throws = False\<rparr>"

text \<open>
  A catalog in which the editability flag and the reserved id disagree: the provider
  \<^verbatim>\<open>"custom"\<close> is not editable, the provider \<^verbatim>\<open>"lan"\<close> is.
\<close>

definition fixed_custom :: SttApiProvider where
  "fixed_custom = \<lparr>id' = ''custom'', label = ''Custom'',
              base_url = ''http://localhost:8000/v1'', allow_base_url_edit = False\<rparr>"

definition lan :: SttApiProvider where
  "lan = \<lparr>id' = ''lan'', label = ''LAN server'',
              base_url = ''http://10.0.0.2:8000/v1'', allow_base_url_edit = True\<rparr>"

definition world_lan :: world where
  "world_lan = \<lparr>stt_api = Some \<lparr>enabled = Some True, provider_id = Some ''lan'',
                   providers = Some [fixed_custom, lan],
                   api_keys = Some Map.empty, models = Some Map.empty\<rparr>,
              selectedProviderId = Some ''lan'',
              baseUrl = ''http://10.0.0.2:8000/v1'', apiKey = Str [], model = Str ''whisper-1'',
              isBaseUrlUpdating = False, isApiKeyUpdating = False,
              isModelUpdating = False, events = [], render_throws = False\<rparr>"

definition world_fixed_custom :: world where
  "world_fixed_custom = world_lan\<lparr>
              stt_api := Some \<lparr>enabled = Some True, provider_id = Some ''custom'',
                   providers = Some [fixed_custom, lan],
                   api_keys = Some Map.empty, models = Some Map.empty\<rparr>,
              selectedProviderId := Some ''custom'',
              baseUrl := ''http://localhost:8000/v1''\<rparr>"

text \<open>
  A catalog in which a provider has the id \<^verbatim>\<open>"toString"\<close>, the name of a property of
  \<^verbatim>\<open>Object.prototype\<close>; OpenAI is active, no key and no model is stored.
\<close>

definition named_toString :: SttApiProvider where
  "named_toString = \<lparr>id' = ''toString'', label = ''Local server'',
              base_url = ''http://localhost:8000/v1'', allow_base_url_edit = True\<rparr>"

definition world_toString :: world where
  "world_toString = \<lparr>stt_api = Some \<lparr>enabled = Some True, provider_id = Some ''openai'',
                   providers = Some [openai, named_toString],
                   api_keys = Some Map.empty, models = Some Map.empty\<rparr>,
              selectedProviderId = Some ''openai'',
              baseUrl = ''https://api.openai.com/v1'', apiKey = Str [], model = Str ''whisper-1'',
              isBaseUrlUpdating = False, isApiKeyUpdating = False,
              isModelUpdating = False, events = [], render_throws = False\<rparr>"

text \<open>
  An interleaving over scenario A with the custom provider selected: the base URL is
  changed and its remote call is pending; the key is changed and committed; then the
  remote call of the base URL resolves.
\<close>

definition world_pending :: world where
  "world_pending =
     invoke (setSttApiBaseUrl ''custom'' ''http://localhost:9000/v1'')
       (setBaseUrl ''http://localhost:9000/v1'' (setIsBaseUrlUpdating True worldA_custom))"

definition world_key_committed :: world where
  "world_key_committed = handleApiKeyChange ''sk-1'' Resolved world_pending"

definition world_overwritten :: world where
  "world_overwritten =
     handleBaseUrlChange_settle worldA_custom ''http://localhost:9000/v1'' Resolved
       world_key_committed"

section \<open>Basic facts\<close>

subsection \<open>Setters and reads\<close>

lemma setApiKey_Str: "setApiKey (Str v) w = w\<lparr>apiKey := Str v\<rparr>"
  by (simp add: setApiKey_def basicStateReducer_def)

lemma setModel_Str: "setModel (Str v) w = w\<lparr>model := Str v\<rparr>"
  by (simp add: setModel_def basicStateReducer_def)

lemmas setters = updateSetting_def setSelectedProviderId_def setBaseUrl_def setApiKey_Str
  setModel_Str setIsBaseUrlUpdating_def setIsApiKeyUpdating_def setIsModelUpdating_def
  invoke_def console_error_def

lemmas handlers = handleProviderSelect_def handleProviderSelect_start_def
  handleProviderSelect_settle_def handleBaseUrlChange_def handleBaseUrlChange_start_def
  handleBaseUrlChange_settle_def handleApiKeyChange_def handleApiKeyChange_start_def
  handleApiKeyChange_settle_def handleModelChange_def handleModelChange_start_def
  handleModelChange_settle_def handleToggleEnabled_def handleToggleEnabled_start_def
  handleToggleEnabled_settle_def

lemmas concrete = openai_def custom_def scenarioA_def worldA_def worldA_custom_def
  fixed_custom_def lan_def world_lan_def world_fixed_custom_def named_toString_def
  world_toString_def world_pending_def world_key_committed_def world_overwritten_def

text \<open>Whatever value a setter of a cell is given, it leaves the rest of the state alone.\<close>

lemma setApiKey_frame:
  "stt_api (setApiKey a w) = stt_api w"
  "events (setApiKey a w) = events w"
  "selectedProviderId (setApiKey a w) = selectedProviderId w"
  "baseUrl (setApiKey a w) = baseUrl w"
  "model (setApiKey a w) = model w"
  "isBaseUrlUpdating (setApiKey a w) = isBaseUrlUpdating w"
  "isApiKeyUpdating (setApiKey a w) = isApiKeyUpdating w"
  "isModelUpdating (setApiKey a w) = isModelUpdating w"
  by (simp_all add: setApiKey_def split: sum.splits)

lemma setModel_frame:
  "stt_api (setModel a w) = stt_api w"
  "events (setModel a w) = events w"
  "selectedProviderId (setModel a w) = selectedProviderId w"
  "baseUrl (setModel a w) = baseUrl w"
  "apiKey (setModel a w) = apiKey w"
  "isBaseUrlUpdating (setModel a w) = isBaseUrlUpdating w"
  "isApiKeyUpdating (setModel a w) = isApiKeyUpdating w"
  "isModelUpdating (setModel a w) = isModelUpdating w"
  by (simp_all add: setModel_def split: sum.splits)

text \<open>
  A read with a default yields the stored string, or the default, for every key that is
  stored or is not the name of an inherited property.
\<close>

lemma lookup_or_plain:
  "f k \<noteq> None \<or> inherited k = None \<Longrightarrow>
     lookup_or (Some f) k d = Inr (Str (case f k of None \<Rightarrow> d | Some v \<Rightarrow> v))"
  by (auto simp: lookup_or_def get_property_def split: option.splits)

lemma inherited_toString: "inherited ''toString'' = Some (Function ToString)"
  by (simp add: inherited_def)

lemma remote_calls_append: "remote_calls (xs @ ys) = remote_calls xs @ remote_calls ys"
  by (induction xs rule: remote_calls.induct) auto

lemma find_Some_holds: "find P xs = Some x \<Longrightarrow> P x"
  by (induction xs) (auto split: if_splits)

lemma isCustomProvider_selected:
  "isCustomProvider w \<Longrightarrow> selectedProviderId w = Some ''custom''"
  by (auto simp: isCustomProvider_def selectedProvider_def split: option.splits
      dest: find_Some_holds)

lemma isCustomProvider_loaded:
  "isCustomProvider w \<Longrightarrow> \<exists>s ps. stt_api w = Some s \<and> providers s = Some ps"
  by (auto simp: isCustomProvider_def selectedProvider_def providers_of_def
      split: option.splits)

text \<open>
  With a snapshot loaded, the call of \<^verbatim>\<open>handleProviderSelect\<close> is issued for every id
  but the empty string.
\<close>

lemma handleProviderSelect_issued:
  "stt_api w \<noteq> None \<Longrightarrow> (handleProviderSelect_start P w \<noteq> None) = (P \<noteq> [])"
  by (auto simp: handleProviderSelect_start_def)

subsection \<open>What the effect leaves alone\<close>

lemma useEffect_init_frame:
  "useEffect_init w = Inr w' \<Longrightarrow>
     stt_api w' = stt_api w \<and> events w' = events w \<and>
     isBaseUrlUpdating w' = isBaseUrlUpdating w \<and>
     isApiKeyUpdating w' = isApiKeyUpdating w \<and> isModelUpdating w' = isModelUpdating w"
  by (auto simp: useEffect_init_def Let_def setters setApiKey_frame setModel_frame
      split: option.splits sum.splits)

lemma then_render_Inr: "then_render r = Inr w' \<Longrightarrow> r = Inr w' \<and> \<not> render_throws w'"
  by (auto simp: then_render_def split: sum.splits if_splits)

lemma rerender_frame:
  "rerender w0 w = Inr w' \<Longrightarrow>
     stt_api w' = stt_api w \<and> events w' = events w \<and>
     isBaseUrlUpdating w' = isBaseUrlUpdating w \<and>
     isApiKeyUpdating w' = isApiKeyUpdating w \<and> isModelUpdating w' = isModelUpdating w"
  by (auto simp: rerender_def dest!: then_render_Inr useEffect_init_frame split: if_splits)

lemma rerender_no_throw: "rerender w0 w = Inr w' \<Longrightarrow> \<not> render_throws w'"
  by (auto simp: rerender_def dest!: then_render_Inr split: if_splits)

text \<open>
  Only \<^verbatim>\<open>handleProviderSelect\<close> changes the dependency of the effect, and only it and the
  effect give a setter a value that was read: after a run of another handler the effect
  does not run and the render does not fail.
\<close>

lemma dep_base_url: "dep (stt_api (handleBaseUrlChange v out w)) = dep (stt_api w)"
  by (cases out)
    (auto simp: dep_def handleBaseUrlChange_def handleBaseUrlChange_start_def
      handleBaseUrlChange_settle_def setters split: option.splits)

lemma dep_api_key: "dep (stt_api (handleApiKeyChange v out w)) = dep (stt_api w)"
  by (cases out)
    (auto simp: dep_def handleApiKeyChange_def handleApiKeyChange_start_def
      handleApiKeyChange_settle_def setters split: option.splits)

lemma dep_model: "dep (stt_api (handleModelChange v out w)) = dep (stt_api w)"
  by (cases out)
    (auto simp: dep_def handleModelChange_def handleModelChange_start_def
      handleModelChange_settle_def setters split: option.splits)

lemma dep_toggle: "dep (stt_api (handleToggleEnabled en out w)) = dep (stt_api w)"
  by (cases out)
    (auto simp: dep_def handleToggleEnabled_def handleToggleEnabled_start_def
      handleToggleEnabled_settle_def spread_def setters split: option.splits)

lemma render_throws_kept:
  "render_throws (handleBaseUrlChange v out w) = render_throws w"
  "render_throws (handleApiKeyChange v out w) = render_throws w"
  "render_throws (handleModelChange v out w) = render_throws w"
  "render_throws (handleToggleEnabled en out w) = render_throws w"
  by (cases out; simp add: handlers setters split: option.splits)+

lemma rerender_not_due:
  assumes "\<not> render_throws w"
  shows "rerender w (handleBaseUrlChange v out w) = Inr (handleBaseUrlChange v out w)"
    and "rerender w (handleApiKeyChange v out w) = Inr (handleApiKeyChange v out w)"
    and "rerender w (handleModelChange v out w) = Inr (handleModelChange v out w)"
    and "rerender w (handleToggleEnabled en out w) = Inr (handleToggleEnabled en out w)"
  using assms
  by (simp_all add: rerender_def dep_base_url dep_api_key dep_model dep_toggle
      render_throws_kept)

subsection \<open>Settled states\<close>

lemma idle_handlers:
  "idle w \<Longrightarrow> idle (handleProviderSelect P out w)"
  "idle w \<Longrightarrow> idle (handleBaseUrlChange v out w)"
  "idle w \<Longrightarrow> idle (handleApiKeyChange v out w)"
  "idle w \<Longrightarrow> idle (handleModelChange v out w)"
  "idle w \<Longrightarrow> idle (handleToggleEnabled en out w)"
  by (auto simp: idle_def handlers setters setApiKey_frame setModel_frame Let_def
      split: option.splits sum.splits outcome.splits)

lemma idle_rerender: "rerender w0 w = Inr w' \<Longrightarrow> idle w \<Longrightarrow> idle w'"
  by (auto simp: idle_def dest: rerender_frame)

lemma settled_idle: "settled w \<Longrightarrow> idle w"
proof (induction rule: settled.induct)
  case (mounted s w)
  then show ?case
    by (auto simp: mount_def idle_def initial_def dest!: then_render_Inr useEffect_init_frame)
qed (auto intro: idle_rerender idle_handlers)

lemma settled_no_throw: "settled w \<Longrightarrow> \<not> render_throws w"
  by (induction rule: settled.induct)
    (auto simp: mount_def dest!: then_render_Inr dest: rerender_no_throw)

lemma in_sync_effect: "useEffect_init w = Inr w' \<Longrightarrow> in_sync w'"
  by (auto simp: useEffect_init_def in_sync_def dep_def Let_def setters setApiKey_frame
      setModel_frame split: option.splits sum.splits)

lemma in_sync_rerender: "rerender w0 w = Inr w' \<Longrightarrow> in_sync w \<Longrightarrow> in_sync w'"
  by (auto simp: rerender_def dest!: then_render_Inr dest: in_sync_effect split: if_splits)

lemma in_sync_handlers:
  "in_sync w \<Longrightarrow> in_sync (handleProviderSelect P out w)"
  "in_sync w \<Longrightarrow> in_sync (handleBaseUrlChange v out w)"
  "in_sync w \<Longrightarrow> in_sync (handleApiKeyChange v out w)"
  "in_sync w \<Longrightarrow> in_sync (handleModelChange v out w)"
  "in_sync w \<Longrightarrow> in_sync (handleToggleEnabled en out w)"
  by (auto simp: in_sync_def dep_def handlers setters setApiKey_frame setModel_frame
      spread_def Let_def split: option.splits sum.splits outcome.splits)

text \<open>
  In a settled state the selection of the form is the \<^verbatim>\<open>provider_id\<close> of the snapshot:
  the controller's active provider and the snapshot's are the same.
\<close>

lemma settled_in_sync: "settled w \<Longrightarrow> in_sync w"
proof (induction rule: settled.induct)
  case (mounted s w)
  then show ?case
    by (auto simp: mount_def dest!: then_render_Inr dest: in_sync_effect)
qed (auto intro: in_sync_rerender in_sync_handlers)

subsection \<open>Scenario A\<close>

text \<open>
  Mounting over the snapshot of scenario A yields the base URL of OpenAI, the empty key
  and the model \<^verbatim>\<open>"whisper-1"\<close>; selecting the custom provider then yields its values.
\<close>

lemmas reads = lookup_or_def chain_lookup_or_def get_property_def inherited_def
  property_key_def

lemma mount_scenarioA: "mount (Some scenarioA) = Inr worldA"
  by (simp add: mount_def then_render_def initial_def useEffect_init_def concrete reads
      setters)

lemma select_custom_scenarioA:
  "rerender worldA (handleProviderSelect ''custom'' Resolved worldA) = Inr worldA_custom"
  by (simp add: rerender_def then_render_def handleProviderSelect_def
      handleProviderSelect_start_def handleProviderSelect_settle_def useEffect_init_def
      concrete dep_def spread_def providers_of_def reads setters)

lemma settled_worldA: "settled worldA"
  using mount_scenarioA by (rule settled.mounted)

lemma settled_worldA_custom: "settled worldA_custom"
  using settled_worldA select_custom_scenarioA by (rule settled.selected)

text \<open>The other concrete states are states after mount, too.\<close>

lemma settled_world_lan: "settled world_lan"
proof -
  have "mount (stt_api world_lan) = Inr world_lan"
    by (simp add: mount_def then_render_def initial_def useEffect_init_def concrete reads
        setters)
  then show ?thesis by (rule settled.mounted)
qed

lemma settled_world_fixed_custom: "settled world_fixed_custom"
proof -
  have "mount (stt_api world_fixed_custom) = Inr world_fixed_custom"
    by (simp add: mount_def then_render_def initial_def useEffect_init_def concrete reads
        setters)
  then show ?thesis by (rule settled.mounted)
qed

lemma settled_world_toString: "settled world_toString"
proof -
  have "mount (stt_api world_toString) = Inr world_toString"
    by (simp add: mount_def then_render_def initial_def useEffect_init_def concrete reads
        setters)
  then show ?thesis by (rule settled.mounted)
qed

lemma settled_initial: "settled (initial None)"
proof -
  have "mount None = Inr (initial None)"
    by (simp add: mount_def then_render_def initial_def useEffect_init_def)
  then show ?thesis by (rule settled.mounted)
qed

lemma isCustomProvider_worldA: "\<not> isCustomProvider worldA"
  by (simp add: isCustomProvider_def selectedProvider_def providers_of_def concrete)

lemma isCustomProvider_worldA_custom: "isCustomProvider worldA_custom"
  by (simp add: isCustomProvider_def selectedProvider_def providers_of_def concrete)

section \<open>The guard of the base URL\<close>

lemma find_ignores_flag:
  "find (\<lambda>p. Q (id' p)) (map (allow_base_url_edit_update f) ps) =
     map_option (allow_base_url_edit_update f) (find (\<lambda>p. Q (id' p)) ps)"
  by (induction ps) auto

lemma isCustomProvider_ignores_flag:
  "isCustomProvider
     (w\<lparr>stt_api := Some (s\<lparr>providers := Some (map (allow_base_url_edit_update f) ps)\<rparr>)\<rparr>) =
   isCustomProvider (w\<lparr>stt_api := Some (s\<lparr>providers := Some ps\<rparr>)\<rparr>)"
  by (simp add: isCustomProvider_def selectedProvider_def providers_of_def
      find_ignores_flag [of "\<lambda>k. Some k = selectedProviderId w"] split: option.splits)

text \<open>
  Claim C1, as amended. \<^verbatim>\<open>handleBaseUrlChange\<close> is guarded by \<^verbatim>\<open>isCustomProvider\<close>: the
  descriptor found for the selection has the reserved id \<^verbatim>\<open>"custom"\<close>. When it does not
  hold (no descriptor is found, or its id is another one) the handler returns at once:
  no remote call is issued and the state, form and snapshot, is the one before. When it
  holds the selection is \<^verbatim>\<open>"custom"\<close>, so the second test of the guard never decides, and
  the handler proceeds: it sets the busy flag, shows the value and issues
  \<^verbatim>\<open>setSttApiBaseUrl("custom", value)\<close>. The flag \<^verbatim>\<open>allow_base_url_edit\<close> is not read:
  changing the flags of all providers does not change the guard.
\<close>

theorem setBaseUrl_guard_is_custom_id:
  "(\<not> isCustomProvider w \<longrightarrow>
      handleBaseUrlChange_start v w = None \<and> handleBaseUrlChange v out w = w) \<and>
   (isCustomProvider w \<longrightarrow>
      handleBaseUrlChange_start v w =
        Some (invoke (setSttApiBaseUrl ''custom'' v)
               (setBaseUrl v (setIsBaseUrlUpdating True w))) \<and>
      handleBaseUrlChange v out w \<noteq> w) \<and>
   isCustomProvider
     (w\<lparr>stt_api := Some (s\<lparr>providers := Some (map (allow_base_url_edit_update f) ps)\<rparr>)\<rparr>) =
   isCustomProvider (w\<lparr>stt_api := Some (s\<lparr>providers := Some ps\<rparr>)\<rparr>)"
proof (cases "isCustomProvider w")
  case False
  then show ?thesis
    by (simp add: handleBaseUrlChange_def handleBaseUrlChange_start_def
        isCustomProvider_ignores_flag)
next
  case True
  then have sel: "selectedProviderId w = Some ''custom''"
    by (rule isCustomProvider_selected)
  have st: "handleBaseUrlChange_start v w =
        Some (invoke (setSttApiBaseUrl ''custom'' v)
               (setBaseUrl v (setIsBaseUrlUpdating True w)))"
    using True sel by (simp add: handleBaseUrlChange_start_def falsy_def property_key_def)
  have "events (handleBaseUrlChange v out w) \<noteq> events w"
    using st
    by (cases out)
      (auto simp: handleBaseUrlChange_def handleBaseUrlChange_settle_def setters Let_def
        split: option.splits)
  then have "handleBaseUrlChange v out w \<noteq> w" by auto
  with True st show ?thesis by (simp add: isCustomProvider_ignores_flag)
qed

theorem setBaseUrl_guard_is_custom_id_witness:
  "\<not> isCustomProvider worldA \<and>
   handleBaseUrlChange ''http://localhost:9000/v1'' Resolved worldA = worldA \<and>
   isCustomProvider worldA_custom \<and>
   handleBaseUrlChange_start ''http://localhost:9000/v1'' worldA_custom =
     Some (invoke (setSttApiBaseUrl ''custom'' ''http://localhost:9000/v1'')
            (setBaseUrl ''http://localhost:9000/v1'' (setIsBaseUrlUpdating True worldA_custom)))"
  using setBaseUrl_guard_is_custom_id [of worldA "''http://localhost:9000/v1''" Resolved]
    setBaseUrl_guard_is_custom_id [of worldA_custom "''http://localhost:9000/v1''"]
    isCustomProvider_worldA isCustomProvider_worldA_custom
  by simp

text \<open>
  Claim C1 as it was stated fails in both directions. In the catalog where \<^verbatim>\<open>"lan"\<close> is
  editable and \<^verbatim>\<open>"custom"\<close> is not, in the states after mount: with \<^verbatim>\<open>"lan"\<close> selected the flag of the active provider
  is true and the handler does nothing; with \<^verbatim>\<open>"custom"\<close> selected the flag is false and
  the handler shows the value, issues the remote call and commits the new base URL.
\<close>

theorem setBaseUrl_flag_counterexample:
  "settled world_lan \<and> settled world_fixed_custom \<and>
   selectedProvider world_lan = Some lan \<and> allow_base_url_edit lan \<and>
   handleBaseUrlChange ''http://10.0.0.9/v1'' Resolved world_lan = world_lan \<and>
   selectedProvider world_fixed_custom = Some fixed_custom \<and>
   \<not> allow_base_url_edit fixed_custom \<and>
   remote_calls (events (handleBaseUrlChange ''http://10.0.0.9/v1'' Resolved world_fixed_custom)) =
     [setSttApiBaseUrl ''custom'' ''http://10.0.0.9/v1''] \<and>
   baseUrl (handleBaseUrlChange ''http://10.0.0.9/v1'' Resolved world_fixed_custom) =
     ''http://10.0.0.9/v1'' \<and>
   providers_of (stt_api (handleBaseUrlChange ''http://10.0.0.9/v1'' Resolved world_fixed_custom)) =
     [fixed_custom\<lparr>base_url := ''http://10.0.0.9/v1''\<rparr>, lan]"
  using settled_world_lan settled_world_fixed_custom
  by (simp add: handleBaseUrlChange_def handleBaseUrlChange_start_def
      handleBaseUrlChange_settle_def isCustomProvider_def selectedProvider_def
      providers_of_def falsy_def property_key_def concrete setters)

section \<open>Selecting a provider\<close>

lemma store_select:
  "stt_api (handleProviderSelect P out w) =
     (if P = [] \<or> stt_api w = None \<or> out = Rejected then stt_api w
      else Some ((spread (stt_api w))\<lparr>provider_id := Some P\<rparr>))"
  by (cases out)
    (auto simp: handleProviderSelect_def handleProviderSelect_start_def
      handleProviderSelect_settle_def setters setApiKey_frame setModel_frame Let_def
      split: option.splits sum.splits)

lemma selection_select:
  "selectedProviderId (handleProviderSelect P out w) =
     (if P = [] \<or> stt_api w = None \<or> out = Rejected then selectedProviderId w else Some P)"
  by (cases out)
    (auto simp: handleProviderSelect_def handleProviderSelect_start_def
      handleProviderSelect_settle_def setters setApiKey_frame setModel_frame Let_def
      split: option.splits sum.splits)

text \<open>
  What claim C3 says holds for every id that is not the name of a property of
  \<^verbatim>\<open>Object.prototype\<close>, and for every id with a stored key and a stored model. Let the
  snapshot be loaded with its providers, keys and models, let \<open>d\<close> be the descriptor that
  \<^verbatim>\<open>find\<close> returns for the id \<open>P\<close>, and let the remote call \<^verbatim>\<open>setSttApiProvider(P)\<close> be
  issued and resolve. Then \<^verbatim>\<open>handleProviderSelect(P)\<close> ends with the selection \<open>P\<close>, the
  base URL of \<open>d\<close>, the key stored for \<open>P\<close> or \<^verbatim>\<open>""\<close>, and the model stored for \<open>P\<close> or
  \<^verbatim>\<open>"whisper-1"\<close>; the snapshot has \<open>P\<close> as its \<^verbatim>\<open>provider_id\<close> and is otherwise the one
  before. The render that follows, with the effect run wherever it is due, shows these
  same values.
\<close>

lemma selectProvider_stored_or_default:
  assumes "stt_api w = Some s" and "providers s = Some ps"
    and "api_keys s = Some ks" and "models s = Some ms"
    and "find (\<lambda>p. id' p = P) ps = Some d"
    and "handleProviderSelect_start P w \<noteq> None"
    and "ks P \<noteq> None \<or> inherited P = None"
    and "ms P \<noteq> None \<or> inherited P = None"
  shows "selectedProviderId (handleProviderSelect P Resolved w) = Some P \<and>
         baseUrl (handleProviderSelect P Resolved w) = base_url d \<and>
         apiKey (handleProviderSelect P Resolved w) =
           Str (case ks P of None \<Rightarrow> [] | Some k \<Rightarrow> k) \<and>
         model (handleProviderSelect P Resolved w) =
           Str (case ms P of None \<Rightarrow> ''whisper-1'' | Some m \<Rightarrow> m) \<and>
         stt_api (handleProviderSelect P Resolved w) = Some (s\<lparr>provider_id := Some P\<rparr>) \<and>
         (\<not> render_throws w \<longrightarrow>
            rerender w (handleProviderSelect P Resolved w) =
              Inr (handleProviderSelect P Resolved w))"
proof -
  have k: "lookup_or (Some ks) P [] = Inr (Str (case ks P of None \<Rightarrow> [] | Some k \<Rightarrow> k))"
    using assms(7) by (rule lookup_or_plain)
  have m: "lookup_or (Some ms) P ''whisper-1'' =
             Inr (Str (case ms P of None \<Rightarrow> ''whisper-1'' | Some m \<Rightarrow> m))"
    using assms(8) by (rule lookup_or_plain)
  from assms(6) have P: "P \<noteq> []"
    by (auto simp: handleProviderSelect_start_def split: if_splits)
  show ?thesis
    using assms(1-5) P k m
    by (simp add: handleProviderSelect_def handleProviderSelect_start_def
        handleProviderSelect_settle_def rerender_def then_render_def useEffect_init_def
        dep_def spread_def providers_of_def chain_lookup_or_def property_key_def setters)
qed

lemma selectProvider_custom_scenarioA:
  "selectedProviderId (handleProviderSelect ''custom'' Resolved worldA) = Some ''custom'' \<and>
   baseUrl (handleProviderSelect ''custom'' Resolved worldA) = ''http://localhost:8000/v1'' \<and>
   apiKey (handleProviderSelect ''custom'' Resolved worldA) = Str [] \<and>
   model (handleProviderSelect ''custom'' Resolved worldA) = Str ''whisper-1''"
proof -
  have a: "stt_api worldA = Some scenarioA" by (simp add: worldA_def)
  have b: "providers scenarioA = Some [openai, custom]" by (simp add: scenarioA_def)
  have c: "api_keys scenarioA = Some Map.empty" by (simp add: scenarioA_def)
  have d: "models scenarioA = Some Map.empty" by (simp add: scenarioA_def)
  have e: "find (\<lambda>p. id' p = ''custom'') [openai, custom] = Some custom"
    by (simp add: openai_def custom_def)
  have f: "handleProviderSelect_start ''custom'' worldA \<noteq> None"
    by (simp add: handleProviderSelect_start_def worldA_def)
  have g: "base_url custom = ''http://localhost:8000/v1''" by (simp add: custom_def)
  have i: "inherited ''custom'' = None" by (simp add: inherited_def)
  from selectProvider_stored_or_default [OF a b c d e f] g i show ?thesis by simp
qed

text \<open>
  For an id that is the name of a property of \<^verbatim>\<open>Object.prototype\<close> and has no stored key
  and no stored model, the defaults are never shown: the value that the reducer takes
  from the inherited property is not a string, or is \<^verbatim>\<open>"[object Undefined]"\<close>, or the
  updater throws and the next render fails.
\<close>

lemma reducer_inherited_not_default:
  assumes "inherited P = Some a"
  shows "case basicStateReducer prev a of
           Inl e \<Rightarrow> True
         | Inr v \<Rightarrow> (\<forall>s. v \<noteq> Str s) \<or> v = Str ''[object Undefined]''"
proof -
  from assms have "a \<in> {Function Constructor, Function DefineGetter, Function DefineSetter,
      Function HasOwnProperty, Function LookupGetter, Function LookupSetter,
      Function IsPrototypeOf, Function PropertyIsEnumerable, Function ToString,
      Function ValueOf, Function ToLocaleString, ObjectPrototype}"
    by (auto simp: inherited_def split: if_splits)
  then show ?thesis
    by (cases prev) (auto simp: basicStateReducer_def to_object_def)
qed

lemma selectProvider_inherited_never_default:
  assumes "stt_api w = Some s" and "providers s = Some ps"
    and "api_keys s = Some ks" and "models s = Some ms"
    and "find (\<lambda>p. id' p = P) ps = Some d"
    and "inherited P = Some a" and "ks P = None" and "ms P = None"
  shows "render_throws (handleProviderSelect P Resolved w) \<or>
         (apiKey (handleProviderSelect P Resolved w) \<noteq> Str [] \<and>
          model (handleProviderSelect P Resolved w) \<noteq> Str ''whisper-1'')"
proof -
  have P: "P \<noteq> []" using assms(6) by (auto simp: inherited_def)
  have k: "lookup_or (Some ks) P [] = Inr a"
    using assms(6,7) by (simp add: lookup_or_def get_property_def)
  have m: "lookup_or (Some ms) P ''whisper-1'' = Inr a"
    using assms(6,8) by (simp add: lookup_or_def get_property_def)
  have e: "handleProviderSelect P Resolved w =
      setModel a (setApiKey a (setBaseUrl (base_url d) (setSelectedProviderId (Some P)
        (updateSetting (s\<lparr>provider_id := Some P\<rparr>) (invoke (setSttApiProvider P) w)))))"
    using assms(1-5) P k m
    by (simp add: handleProviderSelect_def handleProviderSelect_start_def
        handleProviderSelect_settle_def providers_of_def chain_lookup_or_def spread_def)
  show ?thesis
    using reducer_inherited_not_default [OF assms(6), of "apiKey w"]
      reducer_inherited_not_default [OF assms(6), of "model w"]
    unfolding e
    by (auto simp: setApiKey_def setModel_def setters split: sum.splits)
qed

text \<open>
  Claim C3. The code reads the key and the model of the selected id with
  \<^verbatim>\<open>api_keys[providerId] ?? ""\<close> and \<^verbatim>\<open>models[providerId] ?? "whisper-1"\<close>, and the default
  is meant for an id without a stored value. For the id \<^verbatim>\<open>"toString"\<close> it is not
  reached: let the snapshot be loaded, let a descriptor with this id exist, and let no
  key and no model be stored for it. Both reads yield the function
  \<^verbatim>\<open>Object.prototype.toString\<close>, both setters run it as an updater, and after
  \<^verbatim>\<open>handleProviderSelect("toString")\<close> with a remote call that resolves the form shows
  \<^verbatim>\<open>"[object Undefined]"\<close> as the key and as the model, where the claim says \<^verbatim>\<open>""\<close> and
  \<^verbatim>\<open>"whisper-1"\<close>. The selection and the base URL are as the claim says.
\<close>

theorem selectProvider_inherited_toString:
  assumes "stt_api w = Some s" and "providers s = Some ps"
    and "api_keys s = Some ks" and "models s = Some ms"
    and "find (\<lambda>p. id' p = ''toString'') ps = Some d"
    and "ks ''toString'' = None" and "ms ''toString'' = None"
  shows "selectedProviderId (handleProviderSelect ''toString'' Resolved w) = Some ''toString'' \<and>
         baseUrl (handleProviderSelect ''toString'' Resolved w) = base_url d \<and>
         apiKey (handleProviderSelect ''toString'' Resolved w) = Str ''[object Undefined]'' \<and>
         model (handleProviderSelect ''toString'' Resolved w) = Str ''[object Undefined]''"
proof -
  have k: "lookup_or (Some ks) ''toString'' [] = Inr (Function ToString)"
    using assms(6) by (simp add: lookup_or_def get_property_def inherited_toString)
  have m: "lookup_or (Some ms) ''toString'' ''whisper-1'' = Inr (Function ToString)"
    using assms(7) by (simp add: lookup_or_def get_property_def inherited_toString)
  show ?thesis
    using assms(1-5) k m
    by (simp add: handleProviderSelect_def handleProviderSelect_start_def
        handleProviderSelect_settle_def providers_of_def chain_lookup_or_def
        setApiKey_def setModel_def basicStateReducer_def setters)
qed

theorem selectProvider_inherited_toString_witness:
  "find (\<lambda>p. id' p = ''toString'') [openai, named_toString] = Some named_toString \<and>
   selectedProviderId (handleProviderSelect ''toString'' Resolved world_toString) =
     Some ''toString'' \<and>
   baseUrl (handleProviderSelect ''toString'' Resolved world_toString) =
     ''http://localhost:8000/v1'' \<and>
   apiKey (handleProviderSelect ''toString'' Resolved world_toString) =
     Str ''[object Undefined]'' \<and>
   model (handleProviderSelect ''toString'' Resolved world_toString) =
     Str ''[object Undefined]''"
proof -
  let ?s = "\<lparr>enabled = Some True, provider_id = Some ''openai'',
              providers = Some [openai, named_toString],
              api_keys = Some Map.empty, models = Some Map.empty\<rparr>"
  have a: "stt_api world_toString = Some ?s" by (simp add: world_toString_def)
  have b: "providers ?s = Some [openai, named_toString]" by simp
  have c: "api_keys ?s = Some Map.empty" by simp
  have d: "models ?s = Some Map.empty" by simp
  have e: "find (\<lambda>p. id' p = ''toString'') [openai, named_toString] = Some named_toString"
    by (simp add: openai_def named_toString_def)
  have g: "base_url named_toString = ''http://localhost:8000/v1''"
    by (simp add: named_toString_def)
  from selectProvider_inherited_toString [OF a b c d e] e g show ?thesis by simp
qed

text \<open>
  Claim C4, as amended. When the remote call \<^verbatim>\<open>setSttApiProvider\<close> is issued and rejects,
  \<^verbatim>\<open>handleProviderSelect\<close> logs the failure and does nothing else: the call is awaited
  before \<^verbatim>\<open>setSelectedProviderId\<close> is reached, so no selection was made that could be
  rolled back. The selection, the other cells of the form and the snapshot are the ones
  before the call.
\<close>

theorem selectProvider_failure_changes_nothing:
  "handleProviderSelect_start P w \<noteq> None \<Longrightarrow>
     handleProviderSelect P Rejected w =
       w\<lparr>events := events w @ [Invoke (setSttApiProvider P),
                                  ConsoleError ''Failed to set STT API provider:'']\<rparr>"
  by (auto simp: handleProviderSelect_def handleProviderSelect_start_def
      handleProviderSelect_settle_def setters split: if_splits)

theorem selectProvider_failure_changes_nothing_witness:
  "handleProviderSelect_start ''custom'' worldA \<noteq> None \<and>
   handleProviderSelect ''custom'' Rejected worldA =
     worldA\<lparr>events := [Invoke (setSttApiProvider ''custom''),
                         ConsoleError ''Failed to set STT API provider:'']\<rparr>"
proof -
  have f: "handleProviderSelect_start ''custom'' worldA \<noteq> None"
    by (simp add: handleProviderSelect_start_def worldA_def)
  have "events worldA = []" by (simp add: worldA_def)
  with selectProvider_failure_changes_nothing [OF f] f show ?thesis by simp
qed

text \<open>
  Claim C4 as it was stated fails: in scenario A, with OpenAI selected, the call for
  \<^verbatim>\<open>"custom"\<close> rejects and the selection read afterwards is still \<^verbatim>\<open>"openai"\<close>, not the id
  that was passed.
\<close>

theorem selectProvider_failure_counterexample:
  "selectedProviderId (handleProviderSelect ''custom'' Rejected worldA) = Some ''openai'' \<and>
   selectedProviderId (handleProviderSelect ''custom'' Rejected worldA) \<noteq> Some ''custom'' \<and>
   events (handleProviderSelect ''custom'' Rejected worldA) =
     [Invoke (setSttApiProvider ''custom''), ConsoleError ''Failed to set STT API provider:'']"
  by (simp add: handleProviderSelect_def handleProviderSelect_start_def
      handleProviderSelect_settle_def concrete setters)

section \<open>The invariant of the snapshot\<close>

lemma ids_patch:
  "map id' (map (\<lambda>p. if Q p then p\<lparr>base_url := v\<rparr> else p) ps) = map id' ps"
  by (induction ps) auto

lemma ids_base_url:
  "map id' (providers_of (stt_api (handleBaseUrlChange v out w))) =
     map id' (providers_of (stt_api w))"
  by (cases out)
    (simp_all add: providers_of_def handleBaseUrlChange_def handleBaseUrlChange_start_def
      handleBaseUrlChange_settle_def setters ids_patch split: option.splits)

lemma valid_base_url:
  "snapshot_valid (stt_api w) \<Longrightarrow> snapshot_valid (stt_api (handleBaseUrlChange v out w))"
  by (simp only: snapshot_valid_def dep_base_url ids_base_url)

lemma valid_api_key:
  "snapshot_valid (stt_api w) \<Longrightarrow> snapshot_valid (stt_api (handleApiKeyChange v out w))"
  by (cases out)
    (auto simp: snapshot_valid_def dep_def providers_of_def handleApiKeyChange_def
      handleApiKeyChange_start_def handleApiKeyChange_settle_def setters
      split: option.splits)

lemma valid_model:
  "snapshot_valid (stt_api w) \<Longrightarrow> snapshot_valid (stt_api (handleModelChange v out w))"
  by (cases out)
    (auto simp: snapshot_valid_def dep_def providers_of_def handleModelChange_def
      handleModelChange_start_def handleModelChange_settle_def setters
      split: option.splits)

lemma valid_toggle:
  "snapshot_valid (stt_api w) \<Longrightarrow> snapshot_valid (stt_api (handleToggleEnabled en out w))"
  by (cases out)
    (auto simp: snapshot_valid_def dep_def providers_of_def handleToggleEnabled_def
      handleToggleEnabled_start_def handleToggleEnabled_settle_def spread_def setters
      split: option.splits)

lemma valid_select:
  "snapshot_valid (stt_api w) \<Longrightarrow>
     snapshot_valid (stt_api (handleProviderSelect P out w)) \<longleftrightarrow>
       P = [] \<or> out = Rejected \<or> P \<in> set (map id' (providers_of (stt_api w)))"
  by (auto simp: store_select snapshot_valid_def dep_def providers_of_def spread_def
      split: option.splits)

text \<open>
  Claim C2, as amended. Let the snapshot be valid. Then it is valid after a run of
  \<^verbatim>\<open>handleBaseUrlChange\<close>, \<^verbatim>\<open>handleApiKeyChange\<close>, \<^verbatim>\<open>handleModelChange\<close> and
  \<^verbatim>\<open>handleToggleEnabled\<close>, whatever the outcome of the remote call. After a run of
  \<^verbatim>\<open>handleProviderSelect(id)\<close> it is valid exactly when the id is empty (the handler
  returns at once), the remote call rejects, or a descriptor with this id exists. The
  handler does not look the id up before it commits: whenever the id is not empty and the
  remote call resolves, the id becomes the \<^verbatim>\<open>provider_id\<close> of the snapshot and the
  selection of the form, also when no descriptor matches it.
\<close>

theorem snapshot_invariant:
  assumes "snapshot_valid (stt_api w)"
  shows "snapshot_valid (stt_api (handleBaseUrlChange v out w)) \<and>
         snapshot_valid (stt_api (handleApiKeyChange k out w)) \<and>
         snapshot_valid (stt_api (handleModelChange m out w)) \<and>
         snapshot_valid (stt_api (handleToggleEnabled en out w)) \<and>
         (snapshot_valid (stt_api (handleProviderSelect P out w)) \<longleftrightarrow>
            P = [] \<or> out = Rejected \<or> P \<in> set (map id' (providers_of (stt_api w)))) \<and>
         (P \<noteq> [] \<and> out = Resolved \<longrightarrow>
            dep (stt_api (handleProviderSelect P out w)) = Some P \<and>
            selectedProviderId (handleProviderSelect P out w) = Some P)"
proof -
  from assms have "stt_api w \<noteq> None"
    by (auto simp: snapshot_valid_def dep_def split: option.splits)
  then have "P \<noteq> [] \<and> out = Resolved \<longrightarrow>
            dep (stt_api (handleProviderSelect P out w)) = Some P \<and>
            selectedProviderId (handleProviderSelect P out w) = Some P"
    by (auto simp: store_select selection_select dep_def)
  with assms show ?thesis
    by (simp add: valid_base_url valid_api_key valid_model valid_toggle valid_select)
qed

lemma valid_worldA: "snapshot_valid (stt_api worldA)"
  by (simp add: snapshot_valid_def dep_def providers_of_def concrete)

theorem snapshot_invariant_witness:
  "snapshot_valid (stt_api worldA) \<and>
   snapshot_valid (stt_api (handleBaseUrlChange ''http://localhost:9000/v1'' Resolved worldA)) \<and>
   snapshot_valid (stt_api (handleApiKeyChange ''sk-1'' Resolved worldA)) \<and>
   snapshot_valid (stt_api (handleModelChange ''gpt-x'' Resolved worldA)) \<and>
   snapshot_valid (stt_api (handleToggleEnabled True Resolved worldA)) \<and>
   snapshot_valid (stt_api (handleProviderSelect ''custom'' Resolved worldA)) \<and>
   dep (stt_api (handleProviderSelect ''custom'' Resolved worldA)) = Some ''custom''"
proof -
  have "''custom'' \<in> set (map id' (providers_of (stt_api worldA)))"
    by (simp add: providers_of_def concrete)
  with snapshot_invariant [OF valid_worldA, where v = "''http://localhost:9000/v1''"
      and out = Resolved and k = "''sk-1''" and m = "''gpt-x''" and en = True
      and P = "''custom''"] valid_worldA
  show ?thesis by simp
qed

text \<open>
  Claim C2 as it was stated fails: in scenario A the snapshot is valid and no provider
  has the id \<^verbatim>\<open>"nope"\<close>; after \<^verbatim>\<open>handleProviderSelect("nope")\<close> with a remote call that
  resolves, \<^verbatim>\<open>"nope"\<close> is the \<^verbatim>\<open>provider_id\<close> of the snapshot and the selection of the
  form, and the snapshot is no longer valid.
\<close>

theorem selectProvider_unknown_counterexample:
  "snapshot_valid (stt_api worldA) \<and>
   ''nope'' \<notin> set (map id' (providers_of (stt_api worldA))) \<and>
   dep (stt_api (handleProviderSelect ''nope'' Resolved worldA)) = Some ''nope'' \<and>
   selectedProviderId (handleProviderSelect ''nope'' Resolved worldA) = Some ''nope'' \<and>
   \<not> snapshot_valid (stt_api (handleProviderSelect ''nope'' Resolved worldA))"
  by (simp add: snapshot_valid_def dep_def providers_of_def handleProviderSelect_def
      handleProviderSelect_start_def handleProviderSelect_settle_def spread_def
      concrete setters)

section \<open>Changing a field\<close>

text \<open>
  What claim C5 says holds of a run in which nothing is committed between the
  invocation and the outcome of the remote call: when the guard of
  \<^verbatim>\<open>handleBaseUrlChange\<close> passes and the remote call resolves, the snapshot committed is the
  snapshot before with another list of providers and no other difference. The new list
  has the length of the old one; at every position it holds the old element, with the
  new base URL where the id of the element is the selected id, and unchanged elsewhere.
\<close>

lemma setBaseUrl_patches_selected_provider:
  assumes "handleBaseUrlChange_start v w \<noteq> None"
  shows "\<exists>s ps ps'. stt_api w = Some s \<and> providers s = Some ps \<and>
      stt_api (handleBaseUrlChange v Resolved w) = Some (s\<lparr>providers := Some ps'\<rparr>) \<and>
      length ps' = length ps \<and>
      (\<forall>i<length ps. ps' ! i = (if Some (id' (ps ! i)) = selectedProviderId w
                                   then (ps ! i)\<lparr>base_url := v\<rparr> else ps ! i))"
proof -
  from assms have "isCustomProvider w"
    by (auto simp: handleBaseUrlChange_start_def split: if_splits)
  then obtain s ps where s: "stt_api w = Some s" "providers s = Some ps"
    using isCustomProvider_loaded by blast
  let ?ps' = "map (\<lambda>p. if Some (id' p) = selectedProviderId w
                         then p\<lparr>base_url := v\<rparr> else p) ps"
  have "stt_api (handleBaseUrlChange v Resolved w) = Some (s\<lparr>providers := Some ?ps'\<rparr>)"
    using assms s
    by (auto simp: handleBaseUrlChange_def handleBaseUrlChange_start_def
        handleBaseUrlChange_settle_def setters)
  moreover have "length ?ps' = length ps" by simp
  moreover have "\<forall>i<length ps. ?ps' ! i = (if Some (id' (ps ! i)) = selectedProviderId w
                                   then (ps ! i)\<lparr>base_url := v\<rparr> else ps ! i)"
    by simp
  ultimately show ?thesis using s by blast
qed

text \<open>
  Claim C5. The handler builds the snapshot it commits from \<^verbatim>\<open>sttApiSettings\<close>, which the
  callback closed over at its invocation, and not from the snapshot that the store holds
  when the remote call resolves. Let the guard pass in the state \<open>w0\<close> of the invocation,
  and let \<open>w\<close> be any state at the time the call resolves. Then the snapshot committed is
  the snapshot of \<open>w0\<close> with the base URL replaced in the providers whose id is the
  selected id: the keys, the models, the enabled flag and the \<^verbatim>\<open>provider_id\<close> are those of
  \<open>w0\<close>, whatever the store of \<open>w\<close> holds. A field that another handler committed while
  the call was pending is overwritten with its old value, so the snapshot committed
  differs from the one before in more than the base URL, against the claim.
\<close>

theorem setBaseUrl_commits_invocation_snapshot:
  assumes "isCustomProvider w0"
  shows "\<exists>s ps. stt_api w0 = Some s \<and> providers s = Some ps \<and>
      handleBaseUrlChange_start v w0 \<noteq> None \<and>
      stt_api (handleBaseUrlChange_settle w0 v Resolved w) =
        Some (s\<lparr>providers :=
                  Some (map (\<lambda>p. if Some (id' p) = selectedProviderId w0
                                  then p\<lparr>base_url := v\<rparr> else p) ps)\<rparr>)"
proof -
  from assms obtain s ps where s: "stt_api w0 = Some s" "providers s = Some ps"
    using isCustomProvider_loaded by blast
  from assms have "selectedProviderId w0 = Some ''custom''"
    by (rule isCustomProvider_selected)
  with assms have "handleBaseUrlChange_start v w0 \<noteq> None"
    by (simp add: handleBaseUrlChange_start_def falsy_def)
  with s show ?thesis
    by (simp add: handleBaseUrlChange_settle_def setters)
qed

text \<open>
  In scenario A with the custom provider selected: the key \<^verbatim>\<open>"sk-1"\<close> is committed for
  \<^verbatim>\<open>"custom"\<close> while the remote call of the base URL is pending; when that call resolves,
  the snapshot committed has the new base URL and no key for \<^verbatim>\<open>"custom"\<close>, while the form
  still shows \<^verbatim>\<open>"sk-1"\<close>.
\<close>

theorem setBaseUrl_commits_invocation_snapshot_witness:
  "isCustomProvider worldA_custom \<and>
   handleBaseUrlChange_start ''http://localhost:9000/v1'' worldA_custom = Some world_pending \<and>
   Option.bind (Option.bind (stt_api world_key_committed) api_keys) (\<lambda>ks. ks ''custom'') =
     Some ''sk-1'' \<and>
   stt_api world_overwritten =
     Some (scenarioA\<lparr>provider_id := Some ''custom'',
             providers := Some [openai, custom\<lparr>base_url := ''http://localhost:9000/v1''\<rparr>]\<rparr>) \<and>
   Option.bind (Option.bind (stt_api world_overwritten) api_keys) (\<lambda>ks. ks ''custom'') = None \<and>
   apiKey world_overwritten = Str ''sk-1''"
proof -
  have p: "handleBaseUrlChange_start ''http://localhost:9000/v1'' worldA_custom =
             Some world_pending"
    using isCustomProvider_worldA_custom
    by (simp add: handleBaseUrlChange_start_def falsy_def property_key_def world_pending_def
        worldA_custom_def)
  have k: "Option.bind (Option.bind (stt_api world_key_committed) api_keys)
             (\<lambda>ks. ks ''custom'') = Some ''sk-1''"
    by (simp add: world_key_committed_def world_pending_def handleApiKeyChange_def
        handleApiKeyChange_start_def handleApiKeyChange_settle_def falsy_def
        property_key_def spread_map_def worldA_custom_def scenarioA_def setters)
  have f: "apiKey world_overwritten = Str ''sk-1''"
    by (simp add: world_overwritten_def handleBaseUrlChange_settle_def
        world_key_committed_def world_pending_def handleApiKeyChange_def
        handleApiKeyChange_start_def handleApiKeyChange_settle_def falsy_def
        property_key_def worldA_custom_def scenarioA_def setters)
  from setBaseUrl_commits_invocation_snapshot [OF isCustomProvider_worldA_custom,
      of "''http://localhost:9000/v1''" world_key_committed]
  have c: "stt_api world_overwritten =
     Some (scenarioA\<lparr>provider_id := Some ''custom'',
             providers := Some [openai, custom\<lparr>base_url := ''http://localhost:9000/v1''\<rparr>]\<rparr>)"
    by (simp add: world_overwritten_def worldA_custom_def scenarioA_def openai_def custom_def)
  then have "Option.bind (Option.bind (stt_api world_overwritten) api_keys)
               (\<lambda>ks. ks ''custom'') = None"
    by (simp add: scenarioA_def)
  with p k f c isCustomProvider_worldA_custom show ?thesis by simp
qed

text \<open>
  Claim C6. In a settled state no field is busy. For each of \<^verbatim>\<open>handleBaseUrlChange\<close>,
  \<^verbatim>\<open>handleApiKeyChange\<close> and \<^verbatim>\<open>handleModelChange\<close>: when the guard passes (the custom
  provider is selected for the base URL, the selection is not empty for the key and the
  model), the remote call is issued, the busy flag of the field is set in the state in
  which the call is pending, and it is clear in the state in which the handler ends,
  whether the call resolved or rejected. The last part of each handler clears the flag
  in whatever state it runs, and no run from a settled state ends with a busy flag set.
\<close>

theorem busy_flag_set_while_pending_only:
  assumes "settled w"
  shows "\<not> isBaseUrlUpdating w \<and> \<not> isApiKeyUpdating w \<and> \<not> isModelUpdating w \<and>
    (isCustomProvider w \<longrightarrow>
       (\<exists>w1. handleBaseUrlChange_start v w = Some w1 \<and> isBaseUrlUpdating w1 \<and>
             \<not> isBaseUrlUpdating (handleBaseUrlChange_settle w v out w1))) \<and>
    (\<not> falsy (selectedProviderId w) \<longrightarrow>
       (\<exists>w1. handleApiKeyChange_start v w = Some w1 \<and> isApiKeyUpdating w1 \<and>
             \<not> isApiKeyUpdating (handleApiKeyChange_settle w v out w1))) \<and>
    (\<not> falsy (selectedProviderId w) \<longrightarrow>
       (\<exists>w1. handleModelChange_start v w = Some w1 \<and> isModelUpdating w1 \<and>
             \<not> isModelUpdating (handleModelChange_settle w v out w1))) \<and>
    \<not> isBaseUrlUpdating (handleBaseUrlChange_settle w0 v out w2) \<and>
    \<not> isApiKeyUpdating (handleApiKeyChange_settle w0 v out w2) \<and>
    \<not> isModelUpdating (handleModelChange_settle w0 v out w2) \<and>
    idle (handleBaseUrlChange v out w) \<and>
    idle (handleApiKeyChange v out w) \<and>
    idle (handleModelChange v out w)"
proof -
  have i: "idle w" using assms by (rule settled_idle)
  have a: "\<not> isBaseUrlUpdating w \<and> \<not> isApiKeyUpdating w \<and> \<not> isModelUpdating w"
    using i by (simp add: idle_def)
  have b: "isCustomProvider w \<longrightarrow>
       (\<exists>w1. handleBaseUrlChange_start v w = Some w1 \<and> isBaseUrlUpdating w1 \<and>
             \<not> isBaseUrlUpdating (handleBaseUrlChange_settle w v out w1))"
    using isCustomProvider_selected [of w]
    by (auto simp: handleBaseUrlChange_start_def handleBaseUrlChange_settle_def falsy_def
        setters)
  have c: "\<not> falsy (selectedProviderId w) \<longrightarrow>
       (\<exists>w1. handleApiKeyChange_start v w = Some w1 \<and> isApiKeyUpdating w1 \<and>
             \<not> isApiKeyUpdating (handleApiKeyChange_settle w v out w1))"
    by (simp add: handleApiKeyChange_start_def handleApiKeyChange_settle_def setters)
  have d: "\<not> falsy (selectedProviderId w) \<longrightarrow>
       (\<exists>w1. handleModelChange_start v w = Some w1 \<and> isModelUpdating w1 \<and>
             \<not> isModelUpdating (handleModelChange_settle w v out w1))"
    by (simp add: handleModelChange_start_def handleModelChange_settle_def setters)
  have e: "\<not> isBaseUrlUpdating (handleBaseUrlChange_settle w0 v out w2) \<and>
    \<not> isApiKeyUpdating (handleApiKeyChange_settle w0 v out w2) \<and>
    \<not> isModelUpdating (handleModelChange_settle w0 v out w2)"
    by (simp add: handleBaseUrlChange_settle_def handleApiKeyChange_settle_def
        handleModelChange_settle_def setters)
  from a b c d e idle_handlers(2-4) [OF i] show ?thesis by simp
qed

text \<open>
  Scenario A, one run of each handler. The key and the model are changed with OpenAI
  selected and a remote call that rejects (the model as in scenario B), the base URL
  with the custom provider selected and a remote call that resolves. Each flag is clear
  before, set while the call is pending and clear at the end.
\<close>

theorem busy_flag_set_while_pending_only_witness:
  "settled worldA \<and> settled worldA_custom \<and>
   \<not> falsy (selectedProviderId worldA) \<and> isCustomProvider worldA_custom \<and>
   \<not> isModelUpdating worldA \<and>
   map_option isModelUpdating (handleModelChange_start ''gpt-x'' worldA) = Some True \<and>
   \<not> isModelUpdating (handleModelChange ''gpt-x'' Rejected worldA) \<and>
   \<not> isApiKeyUpdating worldA \<and>
   map_option isApiKeyUpdating (handleApiKeyChange_start ''sk-1'' worldA) = Some True \<and>
   \<not> isApiKeyUpdating (handleApiKeyChange ''sk-1'' Rejected worldA) \<and>
   \<not> isBaseUrlUpdating worldA_custom \<and>
   map_option isBaseUrlUpdating
     (handleBaseUrlChange_start ''http://localhost:9000/v1'' worldA_custom) = Some True \<and>
   \<not> isBaseUrlUpdating (handleBaseUrlChange ''http://localhost:9000/v1'' Resolved worldA_custom)"
proof -
  have g: "\<not> falsy (selectedProviderId worldA)" by (simp add: falsy_def worldA_def)
  note m = busy_flag_set_while_pending_only [OF settled_worldA, of "''gpt-x''" Rejected]
  note k = busy_flag_set_while_pending_only [OF settled_worldA, of "''sk-1''" Rejected]
  note u = busy_flag_set_while_pending_only [OF settled_worldA_custom,
      of "''http://localhost:9000/v1''" Resolved]
  from m g obtain wm where wm: "handleModelChange_start ''gpt-x'' worldA = Some wm"
      "isModelUpdating wm" by blast
  from k g obtain wk where wk: "handleApiKeyChange_start ''sk-1'' worldA = Some wk"
      "isApiKeyUpdating wk" by blast
  from u isCustomProvider_worldA_custom obtain wu where
      wu: "handleBaseUrlChange_start ''http://localhost:9000/v1'' worldA_custom = Some wu"
      "isBaseUrlUpdating wu" by blast
  from m have m': "\<not> isModelUpdating worldA"
      "idle (handleModelChange ''gpt-x'' Rejected worldA)" by blast+
  from k have k': "\<not> isApiKeyUpdating worldA"
      "idle (handleApiKeyChange ''sk-1'' Rejected worldA)" by blast+
  from u have u': "\<not> isBaseUrlUpdating worldA_custom"
      "idle (handleBaseUrlChange ''http://localhost:9000/v1'' Resolved worldA_custom)"
    by blast+
  from wm wk wu m' k' u' g settled_worldA settled_worldA_custom
    isCustomProvider_worldA_custom
  show ?thesis by (simp add: idle_def)
qed

text \<open>
  Claim C7. When the selection is not empty, the state right after the invocation of
  \<^verbatim>\<open>handleApiKeyChange(v)\<close>, in which the remote call has been issued and has not
  settled, shows \<open>v\<close> as the key.
\<close>

theorem setApiKey_optimistic:
  "\<not> falsy (selectedProviderId w) \<Longrightarrow>
     \<exists>w1. handleApiKeyChange_start v w = Some w1 \<and> apiKey w1 = Str v \<and>
          stt_api w1 = stt_api w \<and>
          events w1 =
            events w @ [Invoke (setSttApiKey (property_key (selectedProviderId w)) v)]"
  by (simp add: handleApiKeyChange_start_def setters)

theorem setApiKey_optimistic_witness:
  "\<not> falsy (selectedProviderId worldA) \<and>
   map_option apiKey (handleApiKeyChange_start ''sk-1'' worldA) = Some (Str ''sk-1'') \<and>
   map_option events (handleApiKeyChange_start ''sk-1'' worldA) =
     Some [Invoke (setSttApiKey ''openai'' ''sk-1'')]"
proof -
  have g: "\<not> falsy (selectedProviderId worldA)" by (simp add: falsy_def worldA_def)
  from setApiKey_optimistic [OF g, of "''sk-1''"] g show ?thesis
    by (auto simp: property_key_def worldA_def)
qed

text \<open>
  Claim C8, as amended. Let the selection be not empty, and let \<^verbatim>\<open>handleModelChange(m)\<close>
  run twice, the second run starting after the first has ended. Then two remote calls
  \<^verbatim>\<open>setSttApiModel\<close> with the selected id and \<open>m\<close> are issued, and the form after the
  second run is the form after the first. The snapshot after the second run is the
  snapshot after the first too, unless the first call rejected and the second resolved:
  then the second run commits what one run with a call that resolves commits.
\<close>

theorem setModel_twice:
  assumes "\<not> falsy (selectedProviderId w)"
  shows "remote_calls (events (handleModelChange m o2 (handleModelChange m o1 w))) =
           remote_calls (events w) @
             [setSttApiModel (property_key (selectedProviderId w)) m,
              setSttApiModel (property_key (selectedProviderId w)) m] \<and>
         mirror (handleModelChange m o2 (handleModelChange m o1 w)) =
           mirror (handleModelChange m o1 w) \<and>
         (o1 = Resolved \<or> o2 = Rejected \<longrightarrow>
            stt_api (handleModelChange m o2 (handleModelChange m o1 w)) =
              stt_api (handleModelChange m o1 w)) \<and>
         (o1 = Rejected \<and> o2 = Resolved \<longrightarrow>
            stt_api (handleModelChange m o2 (handleModelChange m o1 w)) =
              stt_api (handleModelChange m Resolved w))"
  using assms
  by (cases o1; cases o2)
    (auto simp: handleModelChange_def handleModelChange_start_def
      handleModelChange_settle_def mirror_def remote_calls_append spread_map_def setters
      split: option.splits)

theorem setModel_twice_witness:
  "\<not> falsy (selectedProviderId worldA) \<and>
   remote_calls (events (handleModelChange ''gpt-x'' Resolved
                           (handleModelChange ''gpt-x'' Resolved worldA))) =
     [setSttApiModel ''openai'' ''gpt-x'', setSttApiModel ''openai'' ''gpt-x''] \<and>
   mirror (handleModelChange ''gpt-x'' Resolved (handleModelChange ''gpt-x'' Resolved worldA)) =
     mirror (handleModelChange ''gpt-x'' Resolved worldA) \<and>
   stt_api (handleModelChange ''gpt-x'' Resolved (handleModelChange ''gpt-x'' Resolved worldA)) =
     stt_api (handleModelChange ''gpt-x'' Resolved worldA)"
proof -
  have g: "\<not> falsy (selectedProviderId worldA)" by (simp add: falsy_def worldA_def)
  have e: "remote_calls (events worldA) = []" by (simp add: worldA_def)
  have k: "property_key (selectedProviderId worldA) = ''openai''"
    by (simp add: property_key_def worldA_def)
  from setModel_twice [OF g, of "''gpt-x''" Resolved Resolved] g e k
  show ?thesis by simp
qed

text \<open>
  Claim C8 as it was stated fails in two ways. In scenario A, when the first remote call
  rejects and the second resolves, the snapshot after the first run stores no model for
  \<^verbatim>\<open>"openai"\<close> and the snapshot after the second stores \<^verbatim>\<open>"gpt-x"\<close>. And before a provider
  is selected (the state after mount when no snapshot is loaded) the two runs issue no
  remote call.
\<close>

theorem setModel_twice_counterexample:
  "stt_api (handleModelChange ''gpt-x'' Resolved (handleModelChange ''gpt-x'' Rejected worldA)) \<noteq>
     stt_api (handleModelChange ''gpt-x'' Rejected worldA) \<and>
   remote_calls (events (handleModelChange ''gpt-x'' Resolved
                           (handleModelChange ''gpt-x'' Resolved (initial None)))) = []"
proof -
  let ?w1 = "handleModelChange ''gpt-x'' Rejected worldA"
  let ?w2 = "handleModelChange ''gpt-x'' Resolved ?w1"
  have 1: "Option.bind (Option.bind (stt_api ?w1) models) (\<lambda>ms. ms ''openai'') = None"
    by (simp add: handleModelChange_def handleModelChange_start_def
        handleModelChange_settle_def falsy_def property_key_def concrete setters)
  have 2: "Option.bind (Option.bind (stt_api ?w2) models) (\<lambda>ms. ms ''openai'') =
             Some ''gpt-x''"
    by (simp add: handleModelChange_def handleModelChange_start_def
        handleModelChange_settle_def falsy_def property_key_def spread_map_def
        concrete setters)
  from 1 2 have "stt_api ?w2 \<noteq> stt_api ?w1" by auto
  moreover have "remote_calls (events (handleModelChange ''gpt-x'' Resolved
                           (handleModelChange ''gpt-x'' Resolved (initial None)))) = []"
    by (simp add: handleModelChange_def handleModelChange_start_def falsy_def initial_def)
  ultimately show ?thesis by simp
qed

text \<open>
  Claim C9. When the remote call rejects, the part of \<^verbatim>\<open>handleBaseUrlChange\<close>,
  \<^verbatim>\<open>handleApiKeyChange\<close> and \<^verbatim>\<open>handleModelChange\<close> that follows the call leaves the store as
  it finds it, whatever render the callback closed over; so the run of each handler ends
  with the snapshot it started with. The form keeps the value that was shown when the
  guard passed.
\<close>

theorem failure_leaves_store:
  "stt_api (handleBaseUrlChange_settle w0 v Rejected w1) = stt_api w1 \<and>
   stt_api (handleApiKeyChange_settle w0 v Rejected w1) = stt_api w1 \<and>
   stt_api (handleModelChange_settle w0 v Rejected w1) = stt_api w1 \<and>
   stt_api (handleBaseUrlChange v Rejected w) = stt_api w \<and>
   stt_api (handleApiKeyChange v Rejected w) = stt_api w \<and>
   stt_api (handleModelChange v Rejected w) = stt_api w \<and>
   (handleBaseUrlChange_start v w \<noteq> None \<longrightarrow>
      baseUrl (handleBaseUrlChange v Rejected w) = v) \<and>
   (handleApiKeyChange_start v w \<noteq> None \<longrightarrow>
      apiKey (handleApiKeyChange v Rejected w) = Str v) \<and>
   (handleModelChange_start v w \<noteq> None \<longrightarrow>
      model (handleModelChange v Rejected w) = Str v)"
  by (auto simp: handleBaseUrlChange_def handleBaseUrlChange_start_def
      handleBaseUrlChange_settle_def handleApiKeyChange_def handleApiKeyChange_start_def
      handleApiKeyChange_settle_def handleModelChange_def handleModelChange_start_def
      handleModelChange_settle_def setters)

theorem failure_leaves_store_witness:
  "handleModelChange_start ''gpt-x'' worldA \<noteq> None \<and>
   stt_api (handleModelChange ''gpt-x'' Rejected worldA) = stt_api worldA \<and>
   model (handleModelChange ''gpt-x'' Rejected worldA) = Str ''gpt-x'' \<and>
   handleBaseUrlChange_start ''http://localhost:9000/v1'' worldA_custom \<noteq> None \<and>
   stt_api (handleBaseUrlChange ''http://localhost:9000/v1'' Rejected worldA_custom) =
     stt_api worldA_custom \<and>
   baseUrl (handleBaseUrlChange ''http://localhost:9000/v1'' Rejected worldA_custom) =
     ''http://localhost:9000/v1''"
proof -
  have g: "handleModelChange_start ''gpt-x'' worldA \<noteq> None"
    by (simp add: handleModelChange_start_def falsy_def worldA_def)
  have h: "handleBaseUrlChange_start ''http://localhost:9000/v1'' worldA_custom \<noteq> None"
    using isCustomProvider_worldA_custom
    by (simp add: handleBaseUrlChange_start_def falsy_def worldA_custom_def)
  from failure_leaves_store [of _ "''gpt-x''" _ worldA]
    failure_leaves_store [of _ "''http://localhost:9000/v1''" _ worldA_custom] g h
  show ?thesis by simp
qed

section \<open>The toggle without a snapshot\<close>

text \<open>
  Claim C10. \<^verbatim>\<open>handleToggleEnabled\<close> does not test whether a snapshot is loaded. When the
  store holds no value for \<^verbatim>\<open>"stt_api"\<close>, the run with a remote call that resolves issues
  the call \<^verbatim>\<open>setSttApiEnabled\<close> and stores an object that has the property \<^verbatim>\<open>enabled\<close>
  and no other: \<^verbatim>\<open>provider_id\<close>, \<^verbatim>\<open>providers\<close>, \<^verbatim>\<open>api_keys\<close> and \<^verbatim>\<open>models\<close> are absent.
  Nothing else changes.
\<close>

theorem toggle_without_snapshot:
  "stt_api w = None \<Longrightarrow>
     handleToggleEnabled en Resolved w =
       w\<lparr>stt_api := Some \<lparr>enabled = Some en, provider_id = None, providers = None,
                           api_keys = None, models = None\<rparr>,
         events := events w @ [Invoke (setSttApiEnabled en)]\<rparr>"
  by (simp add: handleToggleEnabled_def handleToggleEnabled_start_def
      handleToggleEnabled_settle_def spread_def setters)

theorem toggle_without_snapshot_witness:
  "stt_api (initial None) = None \<and>
   handleToggleEnabled True Resolved (initial None) =
     (initial None)\<lparr>stt_api := Some \<lparr>enabled = Some True, provider_id = None,
                           providers = None, api_keys = None, models = None\<rparr>,
         events := [Invoke (setSttApiEnabled True)]\<rparr>"
  using toggle_without_snapshot [of "initial None" True] by (simp add: initial_def)


end
